theory Spec2Isabelle
  imports Main "HOL-Library.AList"
begin

section \<open>Python values shared by both programs\<close>

text \<open>
  Exceptions are values. The datatype covers the subclasses of Python's \<open>Exception\<close>
  that the two source files can meet: \<open>httpx.HTTPStatusError\<close> (its message and the
  text of the response it carries), \<open>ValueError\<close>, \<open>KeyError\<close> (the missing key),
  \<open>IndexError\<close>, and \<open>OtherError\<close> for every other subclass of \<open>Exception\<close>
  (a connection error, a timeout, a protocol error), with its message.
  \<open>py_str\<close> is Python's \<open>str(e)\<close>; for a \<open>KeyError\<close> that is the \<open>repr\<close> of
  the key. \<open>py_repr\<close> is \<open>repr\<close> of a string: in single quotes, or in double
  quotes when the string holds a single quote and no double quote; the quote in use and
  the backslash are escaped with a backslash, tab, newline and carriage return are
  written as a backslash and \<open>t\<close>, \<open>n\<close>, \<open>r\<close>, and every other control character
  (below 32, or 127) as a backslash, \<open>x\<close> and two hexadecimal digits. A string is a list of bytes here; bytes
  from 128 on are the UTF-8 encoding of characters beyond ASCII and are kept as they
  are, as \<open>repr\<close> keeps the printable ones among those characters.
\<close>

datatype exn =
    HTTPStatusError string string
  | ValueError string
  | KeyError string
  | IndexError string
  | OtherError string

definition hex_digit :: "nat \<Rightarrow> char" where
  "hex_digit n = (if n < 10 then char_of (48 + n) else char_of (87 + n))"

definition repr_quote :: "string \<Rightarrow> char" where
  "repr_quote s = (if CHR 0x27 \<in> set s \<and> CHR 0x22 \<notin> set s then CHR 0x22 else CHR 0x27)"

definition repr_char :: "char \<Rightarrow> char \<Rightarrow> string" where
  "repr_char q c =
     (if c = q \<or> c = CHR 0x5C then [CHR 0x5C, c]
      else if c = CHR 0x09 then [CHR 0x5C, CHR ''t'']
      else if c = CHR 0x0A then [CHR 0x5C, CHR ''n'']
      else if c = CHR 0x0D then [CHR 0x5C, CHR ''r'']
      else if (of_char c :: nat) < 32 \<or> (of_char c :: nat) = 127
      then [CHR 0x5C, CHR ''x'', hex_digit ((of_char c :: nat) div 16),
            hex_digit ((of_char c :: nat) mod 16)]
      else [c])"

definition py_repr :: "string \<Rightarrow> string" where
  "py_repr s = [repr_quote s] @ concat (map (repr_char (repr_quote s)) s) @ [repr_quote s]"

fun py_str :: "exn \<Rightarrow> string" where
  "py_str (HTTPStatusError msg body) = msg"
| "py_str (ValueError msg) = msg"
| "py_str (KeyError k) = py_repr k"
| "py_str (IndexError msg) = msg"
| "py_str (OtherError msg) = msg"

fun is_HTTPStatusError :: "exn \<Rightarrow> bool" where
  "is_HTTPStatusError (HTTPStatusError msg body) = True"
| "is_HTTPStatusError e = False"

text \<open>\<open>d[k]\<close> on a dictionary whose key may be missing, and \<open>xs[0]\<close> on a list.\<close>

definition getitem :: "string \<Rightarrow> 'a option \<Rightarrow> exn + 'a" where
  "getitem k v = (case v of None \<Rightarrow> Inl (KeyError k) | Some x \<Rightarrow> Inr x)"

definition index0 :: "'a list \<Rightarrow> exn + 'a" where
  "index0 xs = (case xs of [] \<Rightarrow> Inl (IndexError ''list index out of range'') | x # _ \<Rightarrow> Inr x)"

text \<open>\<open>s.split(c)\<close> for a one-character separator, and \<open>sep.join(xs)\<close>.\<close>

fun split_char :: "char \<Rightarrow> string \<Rightarrow> string list" where
  "split_char c [] = [[]]"
| "split_char c (x # xs) =
     (if x = c then [] # split_char c xs
      else (case split_char c xs of [] \<Rightarrow> [[x]] | w # ws \<Rightarrow> (x # w) # ws))"

fun join :: "string \<Rightarrow> string list \<Rightarrow> string" where
  "join sep [] = []"
| "join sep [x] = x"
| "join sep (x # y # ys) = x @ sep @ join sep (y # ys)"

section \<open>server.py: the tool backend\<close>

subsection \<open>The provider's data\<close>

text \<open>
  The JSON the weather provider returns, as far as the tools read it. Every key may be
  missing (\<open>None\<close>); numbers are kept as the text Python's f-string prints for them.
  A forecast entry has \<open>dt_txt\<close>, \<open>weather\<close> (a list of objects with a
  \<open>description\<close>) and \<open>main\<close> (an object with \<open>temp\<close> and \<open>humidity\<close>); the
  top-level object of a reply has the same keys and, for the forecast endpoint,
  \<open>list\<close>.
\<close>

record weather_entry =
  description :: "string option"

record main_block =
  temp :: "string option"
  humidity :: "string option"

record owm_entry =
  dt_txt :: "string option"
  weather :: "weather_entry list option"
  main :: "main_block option"

record owm_data = owm_entry +
  list :: "owm_entry list option"

record http_request =
  url :: string
  params :: "(string \<times> string) list"

record server_env =
  OPENWEATHER_API_KEY :: "string option"
  OPENWEATHER_BASE_URL :: string

text \<open>
  The provider is a parameter \<open>http\<close>: what \<open>client.get\<close>, \<open>raise_for_status\<close> and
  \<open>resp.json()\<close> together give for a request, an exception or the decoded reply.
  A tool's run is the list of requests it sent and what it returned (\<open>Inl\<close>: it raised
  to its caller). \<open>not_set\<close> is Python's \<open>not v\<close> for a value that is \<open>None\<close> or a
  string; \<open>get_weather_data\<close> is the source's \<open>_get_weather_data\<close>.
\<close>

type_synonym provider = "http_request \<Rightarrow> exn + owm_data"

definition not_set :: "string option \<Rightarrow> bool" where
  "not_set v = (case v of None \<Rightarrow> True | Some s \<Rightarrow> s = [])"

definition weather_request :: "server_env \<Rightarrow> string \<Rightarrow> (string \<times> string) list \<Rightarrow> http_request" where
  "weather_request env endpoint ps =
     \<lparr>url = OPENWEATHER_BASE_URL env @ ''/'' @ endpoint,
      params = AList.update ''units'' ''metric''
                 (AList.update ''appid'' (case OPENWEATHER_API_KEY env of None \<Rightarrow> [] | Some k \<Rightarrow> k) ps)\<rparr>"

definition get_weather_data ::
  "server_env \<Rightarrow> provider \<Rightarrow> string \<Rightarrow> (string \<times> string) list \<Rightarrow> http_request list \<times> (exn + owm_data)" where
  "get_weather_data env http endpoint ps =
     (if not_set (OPENWEATHER_API_KEY env)
      then ([], Inl (ValueError ''OPENWEATHER_API_KEY is not set.''))
      else ([weather_request env endpoint ps], http (weather_request env endpoint ps)))"

subsection \<open>Reading the fields\<close>

definition weather_description :: "('a owm_entry_scheme) \<Rightarrow> exn + string" where
  "weather_description d =
     (case getitem ''weather'' (weather d) of Inl e \<Rightarrow> Inl e
      | Inr ws \<Rightarrow> (case index0 ws of Inl e \<Rightarrow> Inl e
         | Inr w0 \<Rightarrow> getitem ''description'' (description w0)))"

definition main_temp :: "('a owm_entry_scheme) \<Rightarrow> exn + string" where
  "main_temp d =
     (case getitem ''main'' (main d) of Inl e \<Rightarrow> Inl e
      | Inr m \<Rightarrow> getitem ''temp'' (temp m))"

definition main_humidity :: "('a owm_entry_scheme) \<Rightarrow> exn + string" where
  "main_humidity d =
     (case getitem ''main'' (main d) of Inl e \<Rightarrow> Inl e
      | Inr m \<Rightarrow> getitem ''humidity'' (humidity m))"

definition degree_C :: string where
  "degree_C = [CHR 0xC2, CHR 0xB0, CHR ''C'']"

subsection \<open>\<open>get_current_weather\<close>\<close>

definition current_weather_text :: "string \<Rightarrow> owm_data \<Rightarrow> exn + string" where
  "current_weather_text city data =
     (case weather_description data of Inl e \<Rightarrow> Inl e
      | Inr weather_desc \<Rightarrow>
        (case main_temp data of Inl e \<Rightarrow> Inl e
         | Inr t \<Rightarrow>
           (case main_humidity data of Inl e \<Rightarrow> Inl e
            | Inr h \<Rightarrow>
                Inr (''Current weather in '' @ city @ '': '' @ weather_desc
                     @ '', Temperature: '' @ t @ degree_C @ '', Humidity: '' @ h @ ''%''))))"

definition current_weather_try :: "server_env \<Rightarrow> provider \<Rightarrow> string \<Rightarrow> http_request list \<times> (exn + string)" where
  "current_weather_try env http city =
     (case get_weather_data env http ''weather'' [(''q'', city)] of
        (sent, Inl e) \<Rightarrow> (sent, Inl e)
      | (sent, Inr data) \<Rightarrow> (sent, current_weather_text city data))"

definition get_current_weather :: "server_env \<Rightarrow> provider \<Rightarrow> string \<Rightarrow> http_request list \<times> (exn + string)" where
  "get_current_weather env http city =
     (case current_weather_try env http city of
        (sent, Inr text) \<Rightarrow> (sent, Inr text)
      | (sent, Inl (HTTPStatusError msg body)) \<Rightarrow> (sent, Inr (''Error fetching weather: '' @ body))
      | (sent, Inl e) \<Rightarrow> (sent, Inr (''An error occurred: '' @ py_str e)))"

subsection \<open>\<open>get_forecast\<close>\<close>

definition item_date :: "owm_entry \<Rightarrow> exn + string" where
  "item_date item =
     (case getitem ''dt_txt'' (dt_txt item) of Inl e \<Rightarrow> Inl e
      | Inr s \<Rightarrow> index0 (split_char CHR '' '' s))"

definition forecast_line :: "string \<Rightarrow> owm_entry \<Rightarrow> exn + string" where
  "forecast_line date item =
     (case weather_description item of Inl e \<Rightarrow> Inl e
      | Inr desc \<Rightarrow>
        (case main_temp item of Inl e \<Rightarrow> Inl e
         | Inr t \<Rightarrow> Inr (date @ '': '' @ desc @ '', '' @ t @ degree_C)))"

fun forecast_loop :: "int \<Rightarrow> owm_entry list \<Rightarrow> string list \<Rightarrow> string set \<Rightarrow> exn + string list" where
  "forecast_loop days [] forecasts seen_dates = Inr forecasts"
| "forecast_loop days (item # rest) forecasts seen_dates =
     (case item_date item of Inl e \<Rightarrow> Inl e
      | Inr date \<Rightarrow>
          if date \<notin> seen_dates then
            (case forecast_line date item of Inl e \<Rightarrow> Inl e
             | Inr line \<Rightarrow>
                 if days \<le> int (length (forecasts @ [line])) then Inr (forecasts @ [line])
                 else forecast_loop days rest (forecasts @ [line]) (insert date seen_dates))
          else forecast_loop days rest forecasts seen_dates)"

definition data_list :: "owm_data \<Rightarrow> owm_entry list" where
  "data_list data = (case list data of None \<Rightarrow> [] | Some xs \<Rightarrow> xs)"

definition forecast_try :: "server_env \<Rightarrow> provider \<Rightarrow> string \<Rightarrow> int \<Rightarrow> http_request list \<times> (exn + string list)" where
  "forecast_try env http city days =
     (let days = (if days > 5 then 5 else days) in
      case get_weather_data env http ''forecast'' [(''q'', city)] of
        (sent, Inl e) \<Rightarrow> (sent, Inl e)
      | (sent, Inr data) \<Rightarrow> (sent, forecast_loop days (data_list data) [] {}))"

definition get_forecast :: "server_env \<Rightarrow> provider \<Rightarrow> string \<Rightarrow> int \<Rightarrow> http_request list \<times> (exn + string)" where
  "get_forecast env http city days =
     (case forecast_try env http city days of
        (sent, Inr forecasts) \<Rightarrow>
          (sent, Inr (''Forecast for '' @ city @ '':'' @ [CHR 0x0A] @ join [CHR 0x0A] forecasts))
      | (sent, Inl (HTTPStatusError msg body)) \<Rightarrow> (sent, Inr (''Error fetching forecast: '' @ body))
      | (sent, Inl e) \<Rightarrow> (sent, Inr (''An error occurred: '' @ py_str e)))"

section \<open>agent_client.py: the turn orchestrator\<close>

subsection \<open>Messages, tool calls and what the turn talks to\<close>

text \<open>
  A transcript entry is a dictionary with \<open>role\<close> and \<open>content\<close>, and for a tool entry
  \<open>tool_call_id\<close>; \<open>content\<close> is \<open>None\<close> where the model returned Python's
  \<open>None\<close>. \<open>tool_call_id\<close> is \<open>None\<close> on the entries that have no such key, and on
  a tool entry whose call object has no \<open>id\<close> attribute
  (\<open>getattr(tool_call, "id", None)\<close>).
\<close>

datatype role = User | Assistant | Tool

record message =
  role :: role
  content :: "string option"
  tool_call_id :: "string option"

datatype json =
    JNull | JBool bool | JNumber string | JString string
  | JArray "json list" | JObject "(string \<times> json) list"

record tool_call =
  tc_id :: "string option"
  tc_name :: string
  tc_arguments :: "string option"

record assistant_msg =
  am_content :: "string option"
  tool_calls :: "tool_call list option"

record mcp_tool =
  tool_name :: string
  tool_description :: "string option"
  tool_inputSchema :: json

record openai_tool =
  fn_name :: string
  fn_description :: string
  fn_parameters :: json
  fn_strict :: bool

record llm_request =
  req_model :: string
  req_messages :: "message list"
  req_tools :: "openai_tool list option"
  req_tool_choice :: "string option"

datatype content_block = TextContent string | OtherContent string

datatype call_tool_result = WithContent "content_block list" | NoContent string

text \<open>
  What the turn shows and whom it calls, in order: the trace. \<open>UiError\<close> is
  \<open>st.error\<close>, \<open>UiChat\<close> a rendered chat message, \<open>Rerun\<close> is \<open>st.rerun()\<close>; the
  others record a call to a collaborator.
\<close>

datatype event =
    UiError string
  | UiChat role string
  | HealthProbe
  | SessionOpen
  | ListTools
  | LlmCall llm_request
  | ToolInvoke string json
  | Rerun

text \<open>
  The collaborators are parameters. \<open>health\<close> is the outcome of the HTTP GET of the
  health path (an exception or the status code); \<open>session_open\<close> that of opening the
  SSE client and the session and initialising it (\<open>None\<close>: no exception);
  \<open>list_tools\<close> the tools listed; \<open>llm k\<close> the choices of the \<open>k\<close>-th chat
  completion of the turn; \<open>call_tool k\<close> the outcome of the \<open>k\<close>-th tool invocation;
  \<open>json_loads\<close> is \<open>json.loads\<close>. \<open>session_close\<close> is the outcome of leaving the
  two \<open>async with\<close> blocks, on the way out of their body or of a failed opening:
  \<open>None\<close> when leaving raises nothing (as when the opening failed before a block
  was entered, so that there is none to leave), \<open>Some e\<close> when it raises \<open>e\<close>. As
  in Python, an exception raised on leaving takes the place of the one that was on its
  way out; the blocks do not swallow an exception of their body.
  The exceptions are subclasses of \<open>Exception\<close>, which is what the handlers of the
  source catch.
\<close>

record world =
  health :: "exn + int"
  session_open :: "exn option"
  list_tools :: "exn + mcp_tool list"
  llm :: "nat \<Rightarrow> llm_request \<Rightarrow> exn + assistant_msg list"
  call_tool :: "nat \<Rightarrow> string \<Rightarrow> json \<Rightarrow> exn + call_tool_result"
  json_loads :: "string \<Rightarrow> exn + json"
  session_close :: "exn option"

record turn_state =
  messages :: "message list"
  trace :: "event list"

definition append_message :: "message \<Rightarrow> turn_state \<Rightarrow> turn_state" where
  "append_message m st = st\<lparr>messages := messages st @ [m]\<rparr>"

definition emit :: "event \<Rightarrow> turn_state \<Rightarrow> turn_state" where
  "emit ev st = st\<lparr>trace := trace st @ [ev]\<rparr>"

subsection \<open>Rendering integers\<close>

fun str_nat :: "nat \<Rightarrow> string" where
  "str_nat n = (if n < 10 then [char_of (48 + n)] else str_nat (n div 10) @ [char_of (48 + n mod 10)])"

definition str_int :: "int \<Rightarrow> string" where
  "str_int i = (if i < 0 then ''-'' @ str_nat (nat (- i)) else str_nat (nat i))"

subsection \<open>The steps of a turn\<close>

definition to_openai_tool :: "mcp_tool \<Rightarrow> openai_tool" where
  "to_openai_tool t =
     \<lparr>fn_name = tool_name t,
      fn_description = (case tool_description t of None \<Rightarrow> [] | Some d \<Rightarrow> d),
      fn_parameters = tool_inputSchema t,
      fn_strict = True\<rparr>"

text \<open>Every entry of the transcript is a dictionary, so normalising copies it.\<close>

definition normalize :: "message list \<Rightarrow> message list" where
  "normalize ms = map (\<lambda>m. m) ms"

definition first_request :: "mcp_tool list \<Rightarrow> message list \<Rightarrow> llm_request" where
  "first_request mcp_tools ms =
     \<lparr>req_model = ''openai/gpt-4o-mini'', req_messages = normalize ms,
      req_tools = Some (map to_openai_tool mcp_tools), req_tool_choice = Some ''auto''\<rparr>"

definition final_request :: "message list \<Rightarrow> llm_request" where
  "final_request ms =
     \<lparr>req_model = ''openai/gpt-4o-mini'', req_messages = normalize ms,
      req_tools = None, req_tool_choice = None\<rparr>"

text \<open>\<open>json.loads(tool_call.function.arguments or "{}")\<close> inside its \<open>try\<close>.\<close>

definition parse_arguments :: "world \<Rightarrow> tool_call \<Rightarrow> json" where
  "parse_arguments w tc =
     (case json_loads w (case tc_arguments tc of None \<Rightarrow> ''{}''
                         | Some s \<Rightarrow> if s = [] then ''{}'' else s) of
        Inl e \<Rightarrow> JObject []
      | Inr v \<Rightarrow> v)"

fun content_text :: "content_block \<Rightarrow> string" where
  "content_text (TextContent t) = t @ [CHR 0x0A]"
| "content_text (OtherContent s) = s @ [CHR 0x0A]"

fun format_output :: "call_tool_result \<Rightarrow> string" where
  "format_output (WithContent cs) = concat (map content_text cs)"
| "format_output (NoContent s) = s"

fun tool_loop :: "world \<Rightarrow> nat \<Rightarrow> tool_call list \<Rightarrow> turn_state \<Rightarrow> turn_state" where
  "tool_loop w k [] st = st"
| "tool_loop w k (tc # rest) st =
     (let tool_args = parse_arguments w tc;
          st1 = emit (ToolInvoke (tc_name tc) tool_args) st
      in case call_tool w k (tc_name tc) tool_args of
           Inl te \<Rightarrow>
             tool_loop w (Suc k) rest
               (append_message
                  \<lparr>role = Tool,
                   content = Some (''Tool '' @ tc_name tc @ '' call failed: '' @ py_str te),
                   tool_call_id = tc_id tc\<rparr> st1)
         | Inr result \<Rightarrow>
             tool_loop w (Suc k) rest
               (append_message
                  \<lparr>role = Tool, content = Some (format_output result),
                   tool_call_id = tc_id tc\<rparr> st1))"

definition requested :: "assistant_msg \<Rightarrow> tool_call list" where
  "requested m = (case tool_calls m of None \<Rightarrow> [] | Some cs \<Rightarrow> cs)"

text \<open>
  What runs inside the two \<open>async with\<close> blocks, their opening included: the state it
  leaves and the exception it raised, if any.
\<close>

definition session_steps :: "world \<Rightarrow> turn_state \<Rightarrow> turn_state \<times> exn option" where
  "session_steps w st0 =
     (let st1 = emit SessionOpen st0 in
      case session_open w of Some e \<Rightarrow> (st1, Some e)
      | None \<Rightarrow>
     (let st2 = emit ListTools st1 in
      case list_tools w of Inl e \<Rightarrow> (st2, Some e)
      | Inr mcp_tools \<Rightarrow>
     (let req = first_request mcp_tools (messages st2);
          st3 = emit (LlmCall req) st2 in
      case llm w 0 req of Inl e \<Rightarrow> (st3, Some e)
      | Inr choices \<Rightarrow>
     (case index0 choices of Inl e \<Rightarrow> (st3, Some e)
      | Inr assistant_msg \<Rightarrow>
          if requested assistant_msg \<noteq> [] then
            (let st4 = append_message
                         \<lparr>role = Assistant, content = am_content assistant_msg,
                          tool_call_id = None\<rparr> st3;
                 st5 = tool_loop w 0 (requested assistant_msg) st4;
                 req2 = final_request (messages st5);
                 st6 = emit (LlmCall req2) st5 in
             case llm w 1 req2 of Inl e \<Rightarrow> (st6, Some e)
             | Inr choices2 \<Rightarrow>
            (case index0 choices2 of Inl e \<Rightarrow> (st6, Some e)
             | Inr final_msg \<Rightarrow>
                 (append_message
                    \<lparr>role = Assistant, content = am_content final_msg,
                     tool_call_id = None\<rparr> st6, None)))
          else
            (append_message
               \<lparr>role = Assistant, content = am_content assistant_msg,
                tool_call_id = None\<rparr> st3, None)))))"

text \<open>
  The body of the outer \<open>try\<close>: the steps, then leaving the blocks. The exception
  that reaches the handler is the one raised on leaving, if there is one, and else the
  one the steps raised.
\<close>

definition leave_session :: "world \<Rightarrow> exn option \<Rightarrow> exn option" where
  "leave_session w raised = (case session_close w of Some e \<Rightarrow> Some e | None \<Rightarrow> raised)"

definition session_body :: "world \<Rightarrow> turn_state \<Rightarrow> turn_state \<times> exn option" where
  "session_body w st0 =
     (case session_steps w st0 of (st1, raised) \<Rightarrow> (st1, leave_session w raised))"

definition run_agent_turn :: "world \<Rightarrow> string \<Rightarrow> turn_state \<Rightarrow> turn_state" where
  "run_agent_turn w user_input st =
     (let st1 = emit HealthProbe
                  (append_message \<lparr>role = User, content = Some user_input, tool_call_id = None\<rparr> st)
      in case health w of
           Inl e \<Rightarrow> emit (UiError (''Backend health check error: '' @ py_str e)) st1
         | Inr status_code \<Rightarrow>
             if status_code \<noteq> 200
             then emit (UiError (''Backend health check failed: '' @ str_int status_code)) st1
             else (case session_body w st1 of
                     (st2, None) \<Rightarrow> st2
                   | (st2, Some e) \<Rightarrow>
                       append_message
                         \<lparr>role = Assistant, content = Some (''[agent error] '' @ py_str e),
                          tool_call_id = None\<rparr>
                         (emit (UiError (''Connection / agent runtime error: '' @ py_str e)) st2)))"

subsection \<open>The script around the turn\<close>

record client_env =
  OPENROUTER_API_KEY :: "string option"

fun render :: "message \<Rightarrow> event list" where
  "render m =
     (if role m = Tool
      then [UiChat Tool (''Tool Output: '' @ (case content m of None \<Rightarrow> ''None'' | Some c \<Rightarrow> c))]
      else if role m = Assistant \<and> \<not> not_set (content m)
      then [UiChat Assistant (case content m of None \<Rightarrow> [] | Some c \<Rightarrow> c)]
      else if role m = User
      then [UiChat User (case content m of None \<Rightarrow> [] | Some c \<Rightarrow> c)]
      else [])"

text \<open>
  One run of the script: the session's \<open>messages\<close> (\<open>None\<close> before the first run
  has set the key) and the prompt the chat input gives (\<open>None\<close>: nothing typed).
  \<open>st.stop()\<close> ends the run where it is called. The page title and the keep-alive
  markup, which every run shows, are left out of the trace.
\<close>

definition client_script ::
  "client_env \<Rightarrow> world \<Rightarrow> string option \<Rightarrow> message list option \<Rightarrow> message list option \<times> event list" where
  "client_script env w prompt session =
     (if not_set (OPENROUTER_API_KEY env)
      then (session, [UiError ''OPENROUTER_API_KEY not found in environment variables.''])
      else
        (let ms = (case session of None \<Rightarrow> [] | Some ms \<Rightarrow> ms);
             shown = concat (map render ms)
         in if not_set prompt then (Some ms, shown)
            else (let st = run_agent_turn w (case prompt of None \<Rightarrow> [] | Some p \<Rightarrow> p)
                             \<lparr>messages = ms, trace = shown\<rparr>
                  in (Some (messages st), trace st @ [Rerun]))))"

section \<open>Properties stated about the programs\<close>

subsection \<open>Which provider entries a forecast shows\<close>

text \<open>
  \<open>first_of_date items seen j line\<close>: entry \<open>j\<close> of the provider's list has a date
  that is not in \<open>seen\<close> and that no earlier entry of the list has, and \<open>line\<close> is
  the line formatted from that entry. \<open>selection items seen js lines\<close>: the indices
  \<open>js\<close> increase strictly, lie in the list, and \<open>lines\<close> are, one for one, the lines
  of those entries, each the first entry of its date.
\<close>

definition first_of_date :: "owm_entry list \<Rightarrow> string set \<Rightarrow> nat \<Rightarrow> string \<Rightarrow> bool" where
  "first_of_date items seen j line =
     (case item_date (items ! j) of Inl e \<Rightarrow> False
      | Inr date \<Rightarrow> date \<notin> seen \<and> forecast_line date (items ! j) = Inr line
          \<and> list_all (\<lambda>it. item_date it \<noteq> Inr date) (take j items))"

definition selection :: "owm_entry list \<Rightarrow> string set \<Rightarrow> nat list \<Rightarrow> string list \<Rightarrow> bool" where
  "selection items seen js lines =
     (sorted_wrt (<) js \<and> list_all (\<lambda>j. j < length items) js
      \<and> list_all2 (first_of_date items seen) js lines)"

subsection \<open>What a turn appends and does\<close>

text \<open>
  \<open>appended st st'\<close> are the transcript entries of \<open>st'\<close> behind those of \<open>st\<close>,
  \<open>happened st st'\<close> the events behind those of \<open>st\<close>; \<open>tool_messages\<close> keeps the
  tool-role entries. \<open>tool_reply w k tc\<close> is the entry the loop appends for the call
  \<open>tc\<close> when it is the \<open>k\<close>-th invocation, \<open>invocation w tc\<close> the invocation it
  makes. \<open>turn_requests w user_input st\<close> are the tool calls of the model's first
  response in the turn, empty when the turn does not get that far (the health check or
  the session fails, the tools cannot be listed, the model call raises or returns no
  choice).
\<close>

definition user_message :: "string \<Rightarrow> message" where
  "user_message user_input = \<lparr>role = User, content = Some user_input, tool_call_id = None\<rparr>"

definition assistant_message :: "string option \<Rightarrow> message" where
  "assistant_message c = \<lparr>role = Assistant, content = c, tool_call_id = None\<rparr>"

definition tool_reply :: "world \<Rightarrow> nat \<Rightarrow> tool_call \<Rightarrow> message" where
  "tool_reply w k tc =
     \<lparr>role = Tool,
      content = Some (case call_tool w k (tc_name tc) (parse_arguments w tc) of
                        Inl te \<Rightarrow> ''Tool '' @ tc_name tc @ '' call failed: '' @ py_str te
                      | Inr result \<Rightarrow> format_output result),
      tool_call_id = tc_id tc\<rparr>"

fun tool_replies :: "world \<Rightarrow> nat \<Rightarrow> tool_call list \<Rightarrow> message list" where
  "tool_replies w k [] = []"
| "tool_replies w k (tc # rest) = tool_reply w k tc # tool_replies w (Suc k) rest"

definition invocation :: "world \<Rightarrow> tool_call \<Rightarrow> event" where
  "invocation w tc = ToolInvoke (tc_name tc) (parse_arguments w tc)"

fun is_ToolInvoke :: "event \<Rightarrow> bool" where
  "is_ToolInvoke (ToolInvoke n a) = True"
| "is_ToolInvoke ev = False"

fun is_LlmCall :: "event \<Rightarrow> bool" where
  "is_LlmCall (LlmCall r) = True"
| "is_LlmCall ev = False"

definition appended :: "turn_state \<Rightarrow> turn_state \<Rightarrow> message list" where
  "appended st st' = drop (length (messages st)) (messages st')"

definition happened :: "turn_state \<Rightarrow> turn_state \<Rightarrow> event list" where
  "happened st st' = drop (length (trace st)) (trace st')"

definition tool_messages :: "message list \<Rightarrow> message list" where
  "tool_messages ms = filter (\<lambda>m. role m = Tool) ms"

definition turn_requests :: "world \<Rightarrow> string \<Rightarrow> turn_state \<Rightarrow> tool_call list" where
  "turn_requests w user_input st =
     (if health w = Inr 200 \<and> session_open w = None then
        (case list_tools w of Inl e \<Rightarrow> []
         | Inr mcp_tools \<Rightarrow>
           (case llm w 0 (first_request mcp_tools (messages st @ [user_message user_input])) of
              Inl e \<Rightarrow> []
            | Inr choices \<Rightarrow> (case choices of [] \<Rightarrow> [] | m # _ \<Rightarrow> requested m)))
      else [])"

subsection \<open>Example inputs\<close>

definition ex_env :: server_env where
  "ex_env = \<lparr>OPENWEATHER_API_KEY = Some ''k'', OPENWEATHER_BASE_URL = ''http://owm''\<rparr>"

definition ex_no_key :: server_env where
  "ex_no_key = \<lparr>OPENWEATHER_API_KEY = None, OPENWEATHER_BASE_URL = ''http://owm''\<rparr>"

definition ex_entry :: "string \<Rightarrow> string \<Rightarrow> string \<Rightarrow> owm_entry" where
  "ex_entry d w t =
     \<lparr>dt_txt = Some d, weather = Some [\<lparr>description = Some w\<rparr>],
      main = Some \<lparr>temp = Some t, humidity = Some ''80''\<rparr>\<rparr>"

definition ex_reply :: "owm_entry list \<Rightarrow> provider" where
  "ex_reply xs req = Inr \<lparr>dt_txt = None, weather = None, main = None, list = Some xs\<rparr>"

definition ex_three :: "owm_entry list" where
  "ex_three =
     [ex_entry ''2024-01-01 00:00:00'' ''clear sky'' ''3.5'',
      ex_entry ''2024-01-01 03:00:00'' ''rain'' ''4.0'',
      ex_entry ''2024-01-02 00:00:00'' ''snow'' ''-1.0'']"

definition ex_fails :: "exn \<Rightarrow> provider" where
  "ex_fails e req = Inl e"

definition ex_request :: "string \<Rightarrow> http_request" where
  "ex_request endpoint =
     \<lparr>url = ''http://owm/'' @ endpoint,
      params = [(''q'', ''Paris''), (''appid'', ''k''), (''units'', ''metric'')]\<rparr>"

definition ex_no_main :: provider where
  "ex_no_main req =
     Inr \<lparr>dt_txt = None, weather = Some [\<lparr>description = Some ''mist''\<rparr>], main = None, list = None\<rparr>"

definition ex_tool :: mcp_tool where
  "ex_tool = \<lparr>tool_name = ''get_forecast'', tool_description = None, tool_inputSchema = JObject []\<rparr>"

definition ex_loads :: "string \<Rightarrow> exn + json" where
  "ex_loads s = (if s = ''{}'' then Inr (JObject []) else Inl (ValueError ''Expecting property name''))"

definition ex_asks :: "string option \<Rightarrow> string option \<Rightarrow> assistant_msg" where
  "ex_asks id1 id2 =
     \<lparr>am_content = None,
      tool_calls = Some
        [\<lparr>tc_id = id1, tc_name = ''get_current_weather'', tc_arguments = Some ''{city''\<rparr>,
         \<lparr>tc_id = id2, tc_name = ''get_forecast'', tc_arguments = None\<rparr>]\<rparr>"

definition ex_says :: "string \<Rightarrow> assistant_msg" where
  "ex_says c = \<lparr>am_content = Some c, tool_calls = None\<rparr>"

definition ex_world :: "exn + int \<Rightarrow> assistant_msg \<Rightarrow> world" where
  "ex_world h first =
     \<lparr>health = h, session_open = None, list_tools = Inr [ex_tool],
      llm = (\<lambda>k req. if k = 0 then Inr [first] else Inr [ex_says ''It is sunny in Paris.'']),
      call_tool = (\<lambda>k n a. if k = 0 then Inl (OtherError ''timed out'')
                            else Inr (WithContent [TextContent ''sunny''])),
      json_loads = ex_loads, session_close = None\<rparr>"

definition ex_closing_fails :: "assistant_msg \<Rightarrow> world" where
  "ex_closing_fails first =
     (ex_world (Inr 200) first)
       \<lparr>session_close := Some (OtherError ''unhandled errors in a TaskGroup (1 sub-exception)'')\<rparr>"

definition ex_start :: turn_state where
  "ex_start =
     \<lparr>messages = [user_message ''hello'', assistant_message (Some ''Hi!'')], trace = []\<rparr>"

definition ex_client_no_key :: client_env where
  "ex_client_no_key = \<lparr>OPENROUTER_API_KEY = None\<rparr>"

section \<open>The forecast loop\<close>

lemmas server_defs =
  get_forecast_def forecast_try_def get_weather_data_def not_set_def data_list_def
  item_date_def getitem_def index0_def forecast_line_def weather_description_def
  main_temp_def main_humidity_def degree_C_def weather_request_def
  get_current_weather_def current_weather_try_def current_weather_text_def

lemmas ex_defs = ex_env_def ex_no_key_def ex_entry_def ex_reply_def ex_three_def ex_fails_def
  ex_request_def ex_no_main_def

lemma first_of_date_Suc_seen:
  "item_date item = Inr d \<Longrightarrow> d \<in> seen \<Longrightarrow> first_of_date rest seen j line
   \<Longrightarrow> first_of_date (item # rest) seen (Suc j) line"
  by (auto simp: first_of_date_def split: sum.splits)

lemma first_of_date_Suc_new:
  "item_date item = Inr d \<Longrightarrow> first_of_date rest (insert d seen) j line
   \<Longrightarrow> first_of_date (item # rest) seen (Suc j) line"
  by (auto simp: first_of_date_def split: sum.splits)

lemma selection_shift_seen:
  assumes "item_date item = Inr d" "d \<in> seen" "selection rest seen js lines"
  shows "selection (item # rest) seen (map Suc js) lines"
  using assms
  by (auto simp: selection_def sorted_wrt_map list_all_iff list_all2_map1
      intro: first_of_date_Suc_seen elim!: list_all2_mono)

lemma first_of_date_0:
  "item_date item = Inr d \<Longrightarrow> d \<notin> seen \<Longrightarrow> forecast_line d item = Inr line
   \<Longrightarrow> first_of_date (item # rest) seen 0 line"
  by (simp add: first_of_date_def)

lemma selection_shift_new:
  assumes "item_date item = Inr d" "d \<notin> seen" "forecast_line d item = Inr line"
    "selection rest (insert d seen) js lines"
  shows "selection (item # rest) seen (0 # map Suc js) (line # lines)"
  using assms first_of_date_0 [OF assms(1-3), of rest]
  by (auto simp: selection_def sorted_wrt_map list_all_iff list_all2_map1
      intro: first_of_date_Suc_new elim!: list_all2_mono)

lemma selection_single:
  assumes "item_date item = Inr d" "d \<notin> seen" "forecast_line d item = Inr line"
  shows "selection (item # rest) seen [0] [line]"
  using first_of_date_0 [OF assms, of rest] by (simp add: selection_def)

lemma forecast_loop_selection:
  "forecast_loop days items fc seen = Inr out \<Longrightarrow>
   \<exists>js lines. out = fc @ lines \<and> selection items seen js lines
      \<and> (int (length fc) < days \<longrightarrow> int (length out) \<le> days)"
proof (induction items arbitrary: fc seen)
  case Nil
  then show ?case by (auto simp: selection_def)
next
  case (Cons item rest)
  from Cons.prems obtain d where d: "item_date item = Inr d"
    by (auto split: sum.splits)
  show ?case
  proof (cases "d \<in> seen")
    case True
    with Cons.prems d have "forecast_loop days rest fc seen = Inr out" by simp
    from Cons.IH [OF this] obtain js lines where
      "out = fc @ lines" "selection rest seen js lines"
      "int (length fc) < days \<longrightarrow> int (length out) \<le> days" by blast
    with selection_shift_seen [OF d True] show ?thesis by blast
  next
    case False
    from Cons.prems d False obtain line where line: "forecast_line d item = Inr line"
      by (auto split: sum.splits)
    show ?thesis
    proof (cases "days \<le> int (length (fc @ [line]))")
      case True
      with Cons.prems d False line have "out = fc @ [line]" by simp
      with selection_single [OF d False line] show ?thesis by fastforce
    next
      case stop: False
      with Cons.prems d False line
      have "forecast_loop days rest (fc @ [line]) (insert d seen) = Inr out" by simp
      from Cons.IH [OF this] obtain js lines where
        *: "out = (fc @ [line]) @ lines" "selection rest (insert d seen) js lines"
        "int (length (fc @ [line])) < days \<longrightarrow> int (length out) \<le> days" by blast
      from selection_shift_new [OF d False line *(2)] * stop show ?thesis
        by (intro exI [of _ "0 # map Suc js"] exI [of _ "line # lines"]) auto
    qed
  qed
qed


lemma selection_distinct_dates:
  assumes "selection items seen js lines"
  shows "distinct (map (\<lambda>j. item_date (items ! j)) js)"
proof -
  from assms have s: "sorted_wrt (<) js" and b: "\<forall>j\<in>set js. j < length items"
    and l: "list_all2 (first_of_date items seen) js lines"
    by (auto simp: selection_def list_all_iff)
  from l have f: "\<forall>j\<in>set js. \<exists>line. first_of_date items seen j line"
    by (metis in_set_conv_nth list_all2_conv_all_nth)
  have later: "item_date (items ! i) \<noteq> item_date (items ! j)"
    if "i < j" "j < length items" "first_of_date items seen j line" for i j line
  proof -
    from that obtain date where d: "item_date (items ! j) = Inr date"
      and a: "list_all (\<lambda>it. item_date it \<noteq> Inr date) (take j items)"
      by (auto simp: first_of_date_def split: sum.splits)
    from that have "items ! i \<in> set (take j items)"
      by (metis in_set_conv_nth length_take min_less_iff_conj nth_take order.strict_trans)
    with a d show ?thesis by (auto simp: list_all_iff)
  qed
  from s b f show ?thesis
  proof (induction js)
    case Nil
    then show ?case by simp
  next
    case (Cons j js)
    then have "\<forall>j'\<in>set js. item_date (items ! j) \<noteq> item_date (items ! j')"
      using later by (metis list.set_intros(2) sorted_wrt.simps(2))
    with Cons show ?case by auto
  qed
qed

text \<open>
  What the forecast lines are, for every \<open>days\<close>. When \<open>get_forecast\<close> reaches its
  \<open>return\<close> with the list \<open>forecasts\<close>, the provider replied with data, and there
  are strictly increasing positions \<open>js\<close> in the provider's list such that the lines
  are exactly the lines of those entries in that order, each entry being the first of
  the provider's list with its date; the dates of those entries are pairwise distinct;
  the text returned is the header followed by those lines; and for \<open>days \<ge> 1\<close> there
  are at most \<open>min days 5\<close> lines. (When the body raises instead, the text returned is
  an error text and holds no forecast line.)
\<close>

theorem get_forecast_first_entry_per_date:
  assumes "forecast_try env http city days = (sent, Inr forecasts)"
  shows "\<exists>data js.
           http (weather_request env ''forecast'' [(''q'', city)]) = Inr data
         \<and> selection (data_list data) {} js forecasts
         \<and> distinct (map (\<lambda>j. item_date (data_list data ! j)) js)
         \<and> (1 \<le> days \<longrightarrow> int (length forecasts) \<le> min days 5)
         \<and> get_forecast env http city days =
             (sent, Inr (''Forecast for '' @ city @ '':'' @ [CHR 0x0A] @ join [CHR 0x0A] forecasts))"
proof -
  let ?d = "if days > 5 then 5 else days"
  from assms obtain data where
    data: "http (weather_request env ''forecast'' [(''q'', city)]) = Inr data"
    and loop: "forecast_loop ?d (data_list data) [] {} = Inr forecasts"
    by (auto simp: forecast_try_def get_weather_data_def Let_def split: if_splits sum.splits)
  from forecast_loop_selection [OF loop] obtain js where
    sel: "selection (data_list data) {} js forecasts"
    and len: "0 < ?d \<longrightarrow> int (length forecasts) \<le> ?d"
    by auto
  from len have "1 \<le> days \<longrightarrow> int (length forecasts) \<le> min days 5"
    by (auto split: if_splits)
  moreover from assms have "get_forecast env http city days =
      (sent, Inr (''Forecast for '' @ city @ '':'' @ [CHR 0x0A] @ join [CHR 0x0A] forecasts))"
    by (simp add: get_forecast_def)
  ultimately show ?thesis
    using data sel selection_distinct_dates [OF sel] by blast
qed

lemma ex_two_days:
  "forecast_try ex_env (ex_reply ex_three) ''Paris'' 2 =
     ([ex_request ''forecast''],
      Inr [''2024-01-01: clear sky, 3.5'' @ degree_C, ''2024-01-02: snow, -1.0'' @ degree_C])"
  by (simp add: server_defs ex_defs ex_request_def)

theorem get_forecast_first_entry_per_date_witness:
  "(1::int) \<le> 2
   \<and> forecast_try ex_env (ex_reply ex_three) ''Paris'' 2 =
       ([ex_request ''forecast''],
        Inr [''2024-01-01: clear sky, 3.5'' @ degree_C, ''2024-01-02: snow, -1.0'' @ degree_C])
   \<and> (\<exists>data js.
         ex_reply ex_three (weather_request ex_env ''forecast'' [(''q'', ''Paris'')]) = Inr data
       \<and> selection (data_list data) {} js
            [''2024-01-01: clear sky, 3.5'' @ degree_C, ''2024-01-02: snow, -1.0'' @ degree_C]
       \<and> distinct (map (\<lambda>j. item_date (data_list data ! j)) js)
       \<and> int (length [''2024-01-01: clear sky, 3.5'' @ degree_C, ''2024-01-02: snow, -1.0'' @ degree_C])
            \<le> min 2 5
       \<and> get_forecast ex_env (ex_reply ex_three) ''Paris'' 2 =
           ([ex_request ''forecast''],
            Inr (''Forecast for '' @ ''Paris'' @ '':'' @ [CHR 0x0A] @ join [CHR 0x0A]
               [''2024-01-01: clear sky, 3.5'' @ degree_C, ''2024-01-02: snow, -1.0'' @ degree_C])))"
proof -
  have d: "(1::int) \<le> 2" by simp
  from get_forecast_first_entry_per_date [OF ex_two_days] d ex_two_days
  show ?thesis by simp
qed

text \<open>
  C1. With \<open>days = 0\<close> and a provider that returns three entries, \<open>get_forecast\<close>
  reaches its \<open>return\<close> with one forecast line, that of the provider's first entry:
  one date, which is more than \<open>min 0 5 = 0\<close>. The test \<open>len(forecasts) >= days\<close> is
  made only after a line has been appended, so the bound of C1 is broken for every
  \<open>days \<le> 0\<close> as soon as the provider returns an entry.
\<close>

theorem get_forecast_zero_days_exceeds_bound:
  "forecast_try ex_env (ex_reply ex_three) ''Paris'' 0 =
     ([ex_request ''forecast''], Inr [''2024-01-01: clear sky, 3.5'' @ degree_C])
   \<and> \<not> int (length [''2024-01-01: clear sky, 3.5'' @ degree_C]) \<le> min 0 5"
  by (simp add: server_defs ex_defs ex_request_def)

text \<open>
  C2. With \<open>days = 0\<close> and with \<open>days = -3\<close>, and a provider that returns three
  entries, \<open>get_forecast\<close> returns the header followed by one forecast line, that of
  the provider's first entry: the test \<open>len(forecasts) >= days\<close> is made only after a
  line has been appended.
\<close>

theorem get_forecast_zero_days_one_line:
  "get_forecast ex_env (ex_reply ex_three) ''Paris'' 0 =
     ([ex_request ''forecast''],
      Inr (''Forecast for Paris:'' @ [CHR 0x0A] @ ''2024-01-01: clear sky, 3.5'' @ degree_C))
   \<and> get_forecast ex_env (ex_reply ex_three) ''Paris'' (- 3) =
     ([ex_request ''forecast''],
      Inr (''Forecast for Paris:'' @ [CHR 0x0A] @ ''2024-01-01: clear sky, 3.5'' @ degree_C))"
  by (simp add: server_defs ex_defs ex_request_def)

section \<open>The current-weather tool\<close>

lemma current_weather_text_not_http:
  "current_weather_text city data = Inl e \<Longrightarrow> \<not> is_HTTPStatusError e"
  by (auto simp: current_weather_text_def weather_description_def main_temp_def
      main_humidity_def getitem_def index0_def split: sum.splits option.splits list.splits)

text \<open>
  C3. For every environment, provider and city, \<open>get_current_weather\<close> returns a text
  and does not raise. When the key is set: if the provider call raises an HTTP status
  error, the text is \<open>Error fetching weather:\<close> followed by the body of the provider's
  response; if it raises any other exception, the text is \<open>An error occurred:\<close>
  followed by the exception's message; if the reply lacks a field the tool reads, the
  text is \<open>An error occurred:\<close> followed by the message of the exception that reading
  raised; otherwise it is the summary line.
\<close>

theorem get_current_weather_returns_text:
  "(\<exists>text. snd (get_current_weather env http city) = Inr text)
   \<and> (\<not> not_set (OPENWEATHER_API_KEY env) \<longrightarrow>
        (\<forall>msg body. http (weather_request env ''weather'' [(''q'', city)]) = Inl (HTTPStatusError msg body)
           \<longrightarrow> snd (get_current_weather env http city) = Inr (''Error fetching weather: '' @ body))
      \<and> (\<forall>e. http (weather_request env ''weather'' [(''q'', city)]) = Inl e \<and> \<not> is_HTTPStatusError e
           \<longrightarrow> snd (get_current_weather env http city) = Inr (''An error occurred: '' @ py_str e))
      \<and> (\<forall>data e. http (weather_request env ''weather'' [(''q'', city)]) = Inr data
             \<and> current_weather_text city data = Inl e
           \<longrightarrow> snd (get_current_weather env http city) = Inr (''An error occurred: '' @ py_str e))
      \<and> (\<forall>data summary. http (weather_request env ''weather'' [(''q'', city)]) = Inr data
             \<and> current_weather_text city data = Inr summary
           \<longrightarrow> snd (get_current_weather env http city) = Inr summary))"
proof (intro conjI impI allI)
  show "\<exists>text. snd (get_current_weather env http city) = Inr text"
    by (auto simp: get_current_weather_def split: prod.splits sum.splits exn.splits)
next
  fix msg body
  assume "\<not> not_set (OPENWEATHER_API_KEY env)"
    "http (weather_request env ''weather'' [(''q'', city)]) = Inl (HTTPStatusError msg body)"
  then show "snd (get_current_weather env http city) = Inr (''Error fetching weather: '' @ body)"
    by (simp add: get_current_weather_def current_weather_try_def get_weather_data_def)
next
  fix e
  assume "\<not> not_set (OPENWEATHER_API_KEY env)"
    "http (weather_request env ''weather'' [(''q'', city)]) = Inl e \<and> \<not> is_HTTPStatusError e"
  then show "snd (get_current_weather env http city) = Inr (''An error occurred: '' @ py_str e)"
    by (cases e) (simp_all add: get_current_weather_def current_weather_try_def get_weather_data_def)
next
  fix data e
  assume k: "\<not> not_set (OPENWEATHER_API_KEY env)"
    and h: "http (weather_request env ''weather'' [(''q'', city)]) = Inr data
      \<and> current_weather_text city data = Inl e"
  then have "\<not> is_HTTPStatusError e" by (auto dest: current_weather_text_not_http)
  with k h show "snd (get_current_weather env http city) = Inr (''An error occurred: '' @ py_str e)"
    by (cases e) (simp_all add: get_current_weather_def current_weather_try_def get_weather_data_def)
next
  fix data summary
  assume "\<not> not_set (OPENWEATHER_API_KEY env)"
    "http (weather_request env ''weather'' [(''q'', city)]) = Inr data
      \<and> current_weather_text city data = Inr summary"
  then show "snd (get_current_weather env http city) = Inr summary"
    by (simp add: get_current_weather_def current_weather_try_def get_weather_data_def)
qed

theorem get_current_weather_returns_text_witness:
  "snd (get_current_weather ex_env (ex_fails (HTTPStatusError ''404 Not Found'' ''city not found'')) ''Paris'')
     = Inr ''Error fetching weather: city not found''
   \<and> snd (get_current_weather ex_env (ex_fails (OtherError ''All connection attempts failed'')) ''Paris'')
     = Inr ''An error occurred: All connection attempts failed''
   \<and> snd (get_current_weather ex_env ex_no_main ''Paris'') = Inr (''An error occurred: '' @ py_str (KeyError ''main''))"
  using get_current_weather_returns_text
          [of ex_env "ex_fails (HTTPStatusError ''404 Not Found'' ''city not found'')" "''Paris''"]
        get_current_weather_returns_text
          [of ex_env "ex_fails (OtherError ''All connection attempts failed'')" "''Paris''"]
        get_current_weather_returns_text [of ex_env ex_no_main "''Paris''"]
  by (simp add: ex_defs ex_no_main_def not_set_def current_weather_text_def weather_description_def
      main_temp_def getitem_def index0_def)

section \<open>The clamp of \<open>days\<close>\<close>

text \<open>
  C10. For every environment, provider, city and \<open>days \<ge> 5\<close>, \<open>get_forecast\<close> with
  \<open>days\<close> sends the same requests and returns the same text as with \<open>5\<close>.
\<close>

theorem get_forecast_clamped:
  "5 \<le> days \<Longrightarrow> get_forecast env http city days = get_forecast env http city 5"
  by (simp add: get_forecast_def forecast_try_def)

theorem get_forecast_clamped_witness:
  "(5::int) \<le> 7
   \<and> get_forecast ex_env (ex_reply ex_three) ''Paris'' 7 = get_forecast ex_env (ex_reply ex_three) ''Paris'' 5"
  using get_forecast_clamped [of 7 ex_env "ex_reply ex_three" "''Paris''"] by simp

section \<open>The turn orchestrator\<close>

subsection \<open>The tool loop and the paths of a turn\<close>

lemma tool_loop_messages:
  "messages (tool_loop w k calls st) = messages st @ tool_replies w k calls"
  by (induction calls arbitrary: k st)
     (auto simp: Let_def append_message_def emit_def tool_reply_def split: sum.splits)

lemma tool_loop_trace:
  "trace (tool_loop w k calls st) = trace st @ map (invocation w) calls"
  by (induction calls arbitrary: k st)
     (auto simp: Let_def append_message_def emit_def invocation_def split: sum.splits)

lemma tool_replies_ids: "map tool_call_id (tool_replies w k calls) = map tc_id calls"
  by (induction calls arbitrary: k) (auto simp: tool_reply_def)

lemma tool_replies_roles: "tool_messages (tool_replies w k calls) = tool_replies w k calls"
  by (induction calls arbitrary: k) (auto simp: tool_reply_def tool_messages_def)

lemma length_tool_replies: "length (tool_replies w k calls) = length calls"
  by (induction calls arbitrary: k) auto

text \<open>What the steps inside the blocks leave, once the first reply is known.\<close>

lemma session_steps_with_calls:
  assumes "session_open w = None" "list_tools w = Inr mcp_tools"
    and "llm w 0 (first_request mcp_tools (messages st)) = Inr (m # others)"
    and "requested m \<noteq> []"
  shows "\<exists>last.
           messages (fst (session_steps w st)) =
             messages st @ [assistant_message (am_content m)] @ tool_replies w 0 (requested m) @ last
         \<and> (snd (session_steps w st) = None \<longrightarrow> (\<exists>c. last = [assistant_message c]))
         \<and> (snd (session_steps w st) \<noteq> None \<longrightarrow> last = [])
         \<and> trace (fst (session_steps w st)) =
             trace st @ [SessionOpen, ListTools, LlmCall (first_request mcp_tools (messages st))]
               @ map (invocation w) (requested m)
               @ [LlmCall (final_request (messages st @ [assistant_message (am_content m)]
                     @ tool_replies w 0 (requested m)))]"
  using assms
  by (auto simp: session_steps_def Let_def emit_def append_message_def index0_def
      tool_loop_messages tool_loop_trace assistant_message_def split: sum.splits list.splits)


lemma distinct_count_list_1: "distinct xs \<Longrightarrow> x \<in> set xs \<Longrightarrow> count_list xs x = 1"
  by (induction xs) auto

lemma session_steps_open_fails:
  "session_open w = Some e \<Longrightarrow> session_steps w st = (emit SessionOpen st, Some e)"
  by (simp add: session_steps_def Let_def)

lemma session_steps_list_fails:
  "session_open w = None \<Longrightarrow> list_tools w = Inl e \<Longrightarrow>
   session_steps w st = (emit ListTools (emit SessionOpen st), Some e)"
  by (simp add: session_steps_def Let_def)

lemma session_steps_llm_fails:
  "session_open w = None \<Longrightarrow> list_tools w = Inr mcp_tools \<Longrightarrow>
   llm w 0 (first_request mcp_tools (messages st)) = Inl e \<Longrightarrow>
   session_steps w st =
     (emit (LlmCall (first_request mcp_tools (messages st))) (emit ListTools (emit SessionOpen st)),
      Some e)"
  by (simp add: session_steps_def Let_def emit_def)

lemma session_steps_no_choice:
  "session_open w = None \<Longrightarrow> list_tools w = Inr mcp_tools \<Longrightarrow>
   llm w 0 (first_request mcp_tools (messages st)) = Inr [] \<Longrightarrow>
   session_steps w st =
     (emit (LlmCall (first_request mcp_tools (messages st))) (emit ListTools (emit SessionOpen st)),
      Some (IndexError ''list index out of range''))"
  by (simp add: session_steps_def Let_def emit_def index0_def)

lemma session_steps_plain_reply:
  "session_open w = None \<Longrightarrow> list_tools w = Inr mcp_tools \<Longrightarrow>
   llm w 0 (first_request mcp_tools (messages st)) = Inr (m # others) \<Longrightarrow> requested m = [] \<Longrightarrow>
   session_steps w st =
     (append_message (assistant_message (am_content m))
        (emit (LlmCall (first_request mcp_tools (messages st))) (emit ListTools (emit SessionOpen st))),
      None)"
  by (simp add: session_steps_def Let_def emit_def index0_def assistant_message_def)

lemma session_steps_without_calls:
  assumes "\<And>mcp_tools m others. session_open w = None \<Longrightarrow> list_tools w = Inr mcp_tools \<Longrightarrow>
     llm w 0 (first_request mcp_tools (messages st)) = Inr (m # others) \<Longrightarrow> requested m = []"
  shows "\<exists>ms evs. messages (fst (session_steps w st)) = messages st @ ms \<and> tool_messages ms = []
           \<and> (\<forall>m\<in>set ms. role m = Assistant)
           \<and> trace (fst (session_steps w st)) = trace st @ evs \<and> filter is_ToolInvoke evs = []"
proof (cases "session_open w")
  case (Some e)
  then show ?thesis
    by (simp add: session_steps_open_fails emit_def tool_messages_def)
next
  case None
  show ?thesis
  proof (cases "list_tools w")
    case (Inl e)
    with None show ?thesis
      by (simp add: session_steps_list_fails emit_def tool_messages_def)
  next
    case (Inr mcp_tools)
    show ?thesis
    proof (cases "llm w 0 (first_request mcp_tools (messages st))")
      case (Inl e)
      with None Inr show ?thesis
        by (simp add: session_steps_llm_fails emit_def tool_messages_def)
    next
      case reply: (Inr choices)
      show ?thesis
      proof (cases choices)
        case Nil
        with None Inr reply show ?thesis
          by (simp add: session_steps_no_choice emit_def tool_messages_def)
      next
        case (Cons m others)
        with None Inr reply assms have "requested m = []" by simp
        with None Inr reply Cons show ?thesis
          by (simp add: session_steps_plain_reply emit_def append_message_def tool_messages_def
              assistant_message_def)
      qed
    qed
  qed
qed

lemma session_body_steps:
  "fst (session_body w st) = fst (session_steps w st)"
  "snd (session_body w st) = leave_session w (snd (session_steps w st))"
  by (simp_all add: session_body_def split: prod.splits)

lemma leave_session_None:
  "leave_session w raised = None \<longleftrightarrow> session_close w = None \<and> raised = None"
  by (simp add: leave_session_def split: option.splits)

lemma run_agent_turn_health_fails:
  "health w \<noteq> Inr 200 \<Longrightarrow>
   \<exists>msg. run_agent_turn w user_input st =
     emit (UiError msg) (emit HealthProbe (append_message (user_message user_input) st))"
  by (cases "health w") (auto simp: run_agent_turn_def Let_def user_message_def)

lemma run_agent_turn_health_ok:
  "health w = Inr 200 \<Longrightarrow>
   run_agent_turn w user_input st =
     (case session_body w (emit HealthProbe (append_message (user_message user_input) st)) of
        (st2, None) \<Rightarrow> st2
      | (st2, Some e) \<Rightarrow>
          append_message (assistant_message (Some (''[agent error] '' @ py_str e)))
            (emit (UiError (''Connection / agent runtime error: '' @ py_str e)) st2))"
  by (simp add: run_agent_turn_def Let_def user_message_def assistant_message_def)

text \<open>
  After the health check: the turn leaves the state of the steps, and when an exception
  reaches the handler, one error shown and one assistant-role entry more.
\<close>

lemma run_agent_turn_after_steps:
  assumes "health w = Inr 200"
    and "session_steps w (emit HealthProbe (append_message (user_message user_input) st)) = (st2, raised)"
  shows "messages (run_agent_turn w user_input st) =
           messages st2 @ (case leave_session w raised of None \<Rightarrow> []
              | Some e \<Rightarrow> [assistant_message (Some (''[agent error] '' @ py_str e))])"
    and "trace (run_agent_turn w user_input st) =
           trace st2 @ (case leave_session w raised of None \<Rightarrow> []
              | Some e \<Rightarrow> [UiError (''Connection / agent runtime error: '' @ py_str e)])"
proof -
  from assms(2) have body:
    "session_body w (emit HealthProbe (append_message (user_message user_input) st)) =
       (st2, leave_session w raised)"
    by (simp add: session_body_def)
  show "messages (run_agent_turn w user_input st) =
           messages st2 @ (case leave_session w raised of None \<Rightarrow> []
              | Some e \<Rightarrow> [assistant_message (Some (''[agent error] '' @ py_str e))])"
    using run_agent_turn_health_ok [OF assms(1), of user_input st] body
    by (cases "leave_session w raised") (simp_all add: append_message_def emit_def)
  show "trace (run_agent_turn w user_input st) =
           trace st2 @ (case leave_session w raised of None \<Rightarrow> []
              | Some e \<Rightarrow> [UiError (''Connection / agent runtime error: '' @ py_str e)])"
    using run_agent_turn_health_ok [OF assms(1), of user_input st] body
    by (cases "leave_session w raised") (simp_all add: append_message_def emit_def)
qed

lemma run_agent_turn_with_calls:
  assumes "health w = Inr 200" "session_open w = None" "list_tools w = Inr mcp_tools"
    and "llm w 0 (first_request mcp_tools (messages st @ [user_message user_input])) = Inr (m # others)"
    and "requested m \<noteq> []"
  shows "\<exists>closing tail.
           messages (run_agent_turn w user_input st) =
             messages st @ [user_message user_input, assistant_message (am_content m)]
               @ tool_replies w 0 (requested m) @ closing
         \<and> closing \<noteq> [] \<and> length closing \<le> 2 \<and> list_all (\<lambda>m. role m = Assistant) closing
         \<and> trace (run_agent_turn w user_input st) =
             trace st @ [HealthProbe, SessionOpen, ListTools,
                         LlmCall (first_request mcp_tools (messages st @ [user_message user_input]))]
               @ map (invocation w) (requested m)
               @ [LlmCall (final_request (messages st @ [user_message user_input,
                     assistant_message (am_content m)] @ tool_replies w 0 (requested m)))]
               @ tail
         \<and> (tail = [] \<or> (\<exists>msg. tail = [UiError msg]))"
proof -
  let ?st1 = "emit HealthProbe (append_message (user_message user_input) st)"
  have m1: "messages ?st1 = messages st @ [user_message user_input]"
    and t1: "trace ?st1 = trace st @ [HealthProbe]"
    by (simp_all add: emit_def append_message_def)
  obtain st2 raised where steps: "session_steps w ?st1 = (st2, raised)"
    by (cases "session_steps w ?st1")
  from assms(4) have reply:
    "llm w 0 (first_request mcp_tools (messages ?st1)) = Inr (m # others)"
    by (simp only: m1)
  from session_steps_with_calls [OF assms(2) assms(3) reply assms(5)] steps
  obtain last where
    ms: "messages st2 =
          messages ?st1 @ [assistant_message (am_content m)] @ tool_replies w 0 (requested m) @ last"
    and ok: "raised = None \<longrightarrow> (\<exists>c. last = [assistant_message c])"
    and bad: "raised \<noteq> None \<longrightarrow> last = []"
    and tr: "trace st2 =
          trace ?st1 @ [SessionOpen, ListTools, LlmCall (first_request mcp_tools (messages ?st1))]
            @ map (invocation w) (requested m)
            @ [LlmCall (final_request (messages ?st1 @ [assistant_message (am_content m)]
                  @ tool_replies w 0 (requested m)))]"
    by auto
  let ?closing = "case leave_session w raised of None \<Rightarrow> []
      | Some e \<Rightarrow> [assistant_message (Some (''[agent error] '' @ py_str e))]"
  let ?shown = "case leave_session w raised of None \<Rightarrow> []
      | Some e \<Rightarrow> [UiError (''Connection / agent runtime error: '' @ py_str e)]"
  have shape: "last @ ?closing \<noteq> [] \<and> length (last @ ?closing) \<le> 2
      \<and> list_all (\<lambda>m. role m = Assistant) (last @ ?closing)
      \<and> (?shown = [] \<or> (\<exists>msg. ?shown = [UiError msg]))"
  proof (cases "leave_session w raised")
    case None
    then have "raised = None" by (simp add: leave_session_None)
    with ok obtain c where "last = [assistant_message c]" by blast
    with None show ?thesis by (simp add: assistant_message_def)
  next
    case (Some e)
    show ?thesis
    proof (cases raised)
      case None
      with ok obtain c where "last = [assistant_message c]" by blast
      with Some show ?thesis by (simp add: assistant_message_def)
    next
      case raised: (Some e')
      with bad have "last = []" by simp
      with Some show ?thesis by (simp add: assistant_message_def)
    qed
  qed
  have "messages (run_agent_turn w user_input st) =
      messages st @ [user_message user_input, assistant_message (am_content m)]
        @ tool_replies w 0 (requested m) @ (last @ ?closing)"
    by (simp only: run_agent_turn_after_steps(1) [OF assms(1) steps] ms m1) simp
  moreover have "trace (run_agent_turn w user_input st) =
      trace st @ [HealthProbe, SessionOpen, ListTools,
                  LlmCall (first_request mcp_tools (messages st @ [user_message user_input]))]
        @ map (invocation w) (requested m)
        @ [LlmCall (final_request (messages st @ [user_message user_input,
              assistant_message (am_content m)] @ tool_replies w 0 (requested m)))]
        @ ?shown"
    by (simp only: run_agent_turn_after_steps(2) [OF assms(1) steps] tr m1 t1) simp
  ultimately show ?thesis using shape by blast
qed

lemma run_agent_turn_without_calls:
  assumes "turn_requests w user_input st = []"
  shows "tool_messages (appended st (run_agent_turn w user_input st)) = []
       \<and> filter is_ToolInvoke (happened st (run_agent_turn w user_input st)) = []"
proof (cases "health w = Inr 200")
  case False
  from run_agent_turn_health_fails [OF False] obtain msg where
    "run_agent_turn w user_input st =
       emit (UiError msg) (emit HealthProbe (append_message (user_message user_input) st))"
    by blast
  then show ?thesis
    by (simp add: emit_def append_message_def appended_def happened_def tool_messages_def
        user_message_def)
next
  case True
  let ?st1 = "emit HealthProbe (append_message (user_message user_input) st)"
  have m1: "messages ?st1 = messages st @ [user_message user_input]"
    and t1: "trace ?st1 = trace st @ [HealthProbe]"
    by (simp_all add: emit_def append_message_def)
  obtain st2 raised where steps: "session_steps w ?st1 = (st2, raised)"
    by (cases "session_steps w ?st1")
  have "\<exists>ms evs. messages (fst (session_steps w ?st1)) = messages ?st1 @ ms \<and> tool_messages ms = []
           \<and> (\<forall>m\<in>set ms. role m = Assistant)
           \<and> trace (fst (session_steps w ?st1)) = trace ?st1 @ evs \<and> filter is_ToolInvoke evs = []"
  proof (rule session_steps_without_calls)
    fix mcp_tools m others
    assume "session_open w = None" "list_tools w = Inr mcp_tools"
      "llm w 0 (first_request mcp_tools (messages ?st1)) = Inr (m # others)"
    with assms True show "requested m = []" by (simp add: turn_requests_def m1)
  qed
  with steps obtain ms evs where
    b: "messages st2 = messages ?st1 @ ms" "tool_messages ms = []"
      "trace st2 = trace ?st1 @ evs" "filter is_ToolInvoke evs = []"
    by auto
  have "tool_messages (appended st (run_agent_turn w user_input st)) = []"
    using run_agent_turn_after_steps(1) [OF True steps] b(1,2) m1
    by (cases "leave_session w raised")
       (simp_all add: appended_def tool_messages_def user_message_def assistant_message_def)
  moreover have "filter is_ToolInvoke (happened st (run_agent_turn w user_input st)) = []"
    using run_agent_turn_after_steps(2) [OF True steps] b(3,4) t1
    by (cases "leave_session w raised") (simp_all add: happened_def)
  ultimately show ?thesis by simp
qed

lemma turn_requests_reached:
  assumes "turn_requests w user_input st \<noteq> []"
  shows "\<exists>mcp_tools m others.
           health w = Inr 200 \<and> session_open w = None \<and> list_tools w = Inr mcp_tools
         \<and> llm w 0 (first_request mcp_tools (messages st @ [user_message user_input])) = Inr (m # others)
         \<and> requested m = turn_requests w user_input st"
  using assms
  by (auto simp: turn_requests_def split: sum.splits list.splits if_splits)

lemma turn_tool_messages:
  "tool_messages (appended st (run_agent_turn w user_input st)) =
     tool_replies w 0 (turn_requests w user_input st)"
proof (cases "turn_requests w user_input st = []")
  case True
  then show ?thesis using run_agent_turn_without_calls [OF True] by simp
next
  case False
  from turn_requests_reached [OF False] obtain mcp_tools m others where
    h: "health w = Inr 200" "session_open w = None" "list_tools w = Inr mcp_tools"
      "llm w 0 (first_request mcp_tools (messages st @ [user_message user_input])) = Inr (m # others)"
      "requested m = turn_requests w user_input st"
    by blast
  with False have ne: "requested m \<noteq> []" by simp
  from run_agent_turn_with_calls [OF h(1-4) ne] obtain closing where
    "messages (run_agent_turn w user_input st) =
       messages st @ [user_message user_input, assistant_message (am_content m)]
         @ tool_replies w 0 (requested m) @ closing"
    "list_all (\<lambda>m. role m = Assistant) closing"
    by blast
  then have "tool_messages (appended st (run_agent_turn w user_input st)) =
      tool_messages (tool_replies w 0 (requested m))"
    by (simp add: appended_def tool_messages_def user_message_def assistant_message_def
        list_all_iff)
  with h(5) show ?thesis by (simp add: tool_replies_roles)
qed

lemma turn_invocations:
  "filter is_ToolInvoke (happened st (run_agent_turn w user_input st)) =
     map (invocation w) (turn_requests w user_input st)"
proof (cases "turn_requests w user_input st = []")
  case True
  then show ?thesis using run_agent_turn_without_calls [OF True] by simp
next
  case False
  from turn_requests_reached [OF False] obtain mcp_tools m others where
    h: "health w = Inr 200" "session_open w = None" "list_tools w = Inr mcp_tools"
      "llm w 0 (first_request mcp_tools (messages st @ [user_message user_input])) = Inr (m # others)"
      "requested m = turn_requests w user_input st"
    by blast
  with False have ne: "requested m \<noteq> []" by simp
  have inv: "filter is_ToolInvoke (map (invocation w) cs) = map (invocation w) cs" for cs
    by (induction cs) (auto simp: invocation_def)
  from run_agent_turn_with_calls [OF h(1-4) ne] obtain tail where
    "trace (run_agent_turn w user_input st) =
       trace st @ [HealthProbe, SessionOpen, ListTools,
                   LlmCall (first_request mcp_tools (messages st @ [user_message user_input]))]
         @ map (invocation w) (requested m)
         @ [LlmCall (final_request (messages st @ [user_message user_input,
               assistant_message (am_content m)] @ tool_replies w 0 (requested m)))]
         @ tail" "tail = [] \<or> (\<exists>msg. tail = [UiError msg])"
    by blast
  then have "filter is_ToolInvoke (happened st (run_agent_turn w user_input st)) =
      map (invocation w) (requested m)"
    by (auto simp: happened_def inv)
  with h(5) show ?thesis by simp
qed

subsection \<open>Two tool calls\<close>

text \<open>
  C4. When the health check returns 200, the session opens, the tools are listed and the
  model's first response carries exactly the two tool calls \<open>c1\<close>, \<open>c2\<close>, the turn
  appends the user message, the assistant message, two tool-role messages \<open>t1\<close>,
  \<open>t2\<close> and then assistant-role messages only (the final answer, the error entry of
  the handler, or both when leaving the session raises after the final answer);
  \<open>t1\<close> and \<open>t2\<close> are the only tool-role messages appended, in the order of the
  calls, each with its call's identifier. An
  invocation that raises gives the content \<open>Tool <name> call failed: <message>\<close>, one
  that returns gives the formatted output; this holds for either call whatever the
  other one did.
\<close>

theorem two_tool_calls_two_tool_messages:
  assumes "health w = Inr 200" "session_open w = None" "list_tools w = Inr mcp_tools"
    and "llm w 0 (first_request mcp_tools (messages st @ [user_message user_input])) = Inr (m # others)"
    and "tool_calls m = Some [c1, c2]"
  shows "\<exists>t1 t2 closing.
           messages (run_agent_turn w user_input st) =
             messages st @ [user_message user_input, assistant_message (am_content m), t1, t2]
               @ closing
         \<and> closing \<noteq> [] \<and> list_all (\<lambda>m. role m = Assistant) closing
         \<and> tool_messages (appended st (run_agent_turn w user_input st)) = [t1, t2]
         \<and> role t1 = Tool \<and> tool_call_id t1 = tc_id c1
         \<and> role t2 = Tool \<and> tool_call_id t2 = tc_id c2
         \<and> (\<forall>te. call_tool w 0 (tc_name c1) (parse_arguments w c1) = Inl te \<longrightarrow>
               content t1 = Some (''Tool '' @ tc_name c1 @ '' call failed: '' @ py_str te))
         \<and> (\<forall>result. call_tool w 0 (tc_name c1) (parse_arguments w c1) = Inr result \<longrightarrow>
               content t1 = Some (format_output result))
         \<and> (\<forall>te. call_tool w 1 (tc_name c2) (parse_arguments w c2) = Inl te \<longrightarrow>
               content t2 = Some (''Tool '' @ tc_name c2 @ '' call failed: '' @ py_str te))
         \<and> (\<forall>result. call_tool w 1 (tc_name c2) (parse_arguments w c2) = Inr result \<longrightarrow>
               content t2 = Some (format_output result))"
proof -
  from assms(5) have r: "requested m = [c1, c2]" by (simp add: requested_def)
  then have "requested m \<noteq> []" by simp
  from run_agent_turn_with_calls [OF assms(1-4) this] r obtain closing where
    ms: "messages (run_agent_turn w user_input st) =
       messages st @ [user_message user_input, assistant_message (am_content m),
         tool_reply w 0 c1, tool_reply w 1 c2] @ closing"
    and closing: "closing \<noteq> []" "list_all (\<lambda>m. role m = Assistant) closing"
    by auto
  from ms closing have "tool_messages (appended st (run_agent_turn w user_input st)) =
      [tool_reply w 0 c1, tool_reply w 1 c2]"
    by (simp add: appended_def tool_messages_def user_message_def assistant_message_def
        tool_reply_def list_all_iff)
  with ms closing show ?thesis
    by (intro exI [of _ "tool_reply w 0 c1"] exI [of _ "tool_reply w 1 c2"] exI [of _ closing])
       (simp add: tool_reply_def)
qed

lemma ex_turn_hyps:
  "health (ex_world (Inr 200) a) = Inr 200"
  "session_open (ex_world h a) = None"
  "list_tools (ex_world h a) = Inr [ex_tool]"
  "llm (ex_world h a) 0 req = Inr [a]"
  by (simp_all add: ex_world_def)

theorem two_tool_calls_two_tool_messages_witness:
  "tool_calls (ex_asks (Some ''call_1'') (Some ''call_2'')) =
     Some [\<lparr>tc_id = Some ''call_1'', tc_name = ''get_current_weather'', tc_arguments = Some ''{city''\<rparr>,
           \<lparr>tc_id = Some ''call_2'', tc_name = ''get_forecast'', tc_arguments = None\<rparr>]
   \<and> call_tool (ex_world (Inr 200) (ex_asks (Some ''call_1'') (Some ''call_2''))) 0
        ''get_current_weather'' (JObject []) = Inl (OtherError ''timed out'')
   \<and> call_tool (ex_world (Inr 200) (ex_asks (Some ''call_1'') (Some ''call_2''))) 1
        ''get_forecast'' (JObject []) = Inr (WithContent [TextContent ''sunny''])
   \<and> tool_messages (appended ex_start
        (run_agent_turn (ex_world (Inr 200) (ex_asks (Some ''call_1'') (Some ''call_2'')))
           ''Weather in Paris?'' ex_start)) =
       [\<lparr>role = Tool, content = Some ''Tool get_current_weather call failed: timed out'',
         tool_call_id = Some ''call_1''\<rparr>,
        \<lparr>role = Tool, content = Some (''sunny'' @ [CHR 0x0A]), tool_call_id = Some ''call_2''\<rparr>]"
proof -
  let ?a = "ex_asks (Some ''call_1'') (Some ''call_2'')"
  let ?w = "ex_world (Inr 200) ?a"
  let ?c1 = "\<lparr>tc_id = Some ''call_1'', tc_name = ''get_current_weather'', tc_arguments = Some ''{city''\<rparr>"
  let ?c2 = "\<lparr>tc_id = Some ''call_2'', tc_name = ''get_forecast'', tc_arguments = None\<rparr>"
  have calls: "tool_calls ?a = Some [?c1, ?c2]" by (simp add: ex_asks_def)
  have p1: "parse_arguments ?w ?c1 = JObject []" and p2: "parse_arguments ?w ?c2 = JObject []"
    by (simp_all add: parse_arguments_def ex_world_def ex_loads_def)
  have k1: "call_tool ?w 0 ''get_current_weather'' (JObject []) = Inl (OtherError ''timed out'')"
    and k2: "call_tool ?w 1 ''get_forecast'' (JObject []) = Inr (WithContent [TextContent ''sunny''])"
    by (simp_all add: ex_world_def)
  from two_tool_calls_two_tool_messages
         [of ?w "[ex_tool]" ex_start "''Weather in Paris?''" ?a "[]" ?c1 ?c2,
          OF ex_turn_hyps(1) ex_turn_hyps(2) ex_turn_hyps(3) ex_turn_hyps(4) calls]
  obtain t1 t2 where
    tm: "tool_messages (appended ex_start (run_agent_turn ?w ''Weather in Paris?'' ex_start)) = [t1, t2]"
    and t1: "role t1 = Tool" "tool_call_id t1 = Some ''call_1''"
      "content t1 = Some ''Tool get_current_weather call failed: timed out''"
    and t2: "role t2 = Tool" "tool_call_id t2 = Some ''call_2''"
      "content t2 = Some (''sunny'' @ [CHR 0x0A])"
    using p1 p2 k1 k2 by auto
  from t1 have "t1 = \<lparr>role = Tool, content = Some ''Tool get_current_weather call failed: timed out'',
      tool_call_id = Some ''call_1''\<rparr>" by (cases t1) simp
  moreover from t2 have "t2 = \<lparr>role = Tool, content = Some (''sunny'' @ [CHR 0x0A]),
      tool_call_id = Some ''call_2''\<rparr>" by (cases t2) simp
  ultimately show ?thesis using calls k1 k2 tm by simp
qed

subsection \<open>A failed health check\<close>

text \<open>
  C5. When the health request raises or returns a status other than 200 (every
  non-success status is one), the turn leaves the transcript with only the user message
  appended, shows one error (naming the status code or the exception), and does nothing
  else after the probe: no session is opened.
\<close>

theorem health_check_failure_aborts:
  assumes "health w \<noteq> Inr 200"
  shows "messages (run_agent_turn w user_input st) = messages st @ [user_message user_input]
       \<and> (\<exists>msg. happened st (run_agent_turn w user_input st) = [HealthProbe, UiError msg])
       \<and> SessionOpen \<notin> set (happened st (run_agent_turn w user_input st))
       \<and> (\<forall>status_code. health w = Inr status_code \<longrightarrow>
             happened st (run_agent_turn w user_input st) =
               [HealthProbe, UiError (''Backend health check failed: '' @ str_int status_code)])
       \<and> (\<forall>e. health w = Inl e \<longrightarrow>
             happened st (run_agent_turn w user_input st) =
               [HealthProbe, UiError (''Backend health check error: '' @ py_str e)])"
  using assms
  by (cases "health w")
     (auto simp: run_agent_turn_def Let_def emit_def append_message_def happened_def
        user_message_def)

theorem health_check_failure_aborts_witness:
  "health (ex_world (Inr 500) (ex_says ''unused'')) \<noteq> Inr 200
   \<and> messages (run_agent_turn (ex_world (Inr 500) (ex_says ''unused'')) ''Weather in Paris?'' ex_start) =
       [user_message ''hello'', assistant_message (Some ''Hi!''), user_message ''Weather in Paris?'']
   \<and> happened ex_start (run_agent_turn (ex_world (Inr 500) (ex_says ''unused'')) ''Weather in Paris?'' ex_start) =
       [HealthProbe, UiError ''Backend health check failed: 500'']
   \<and> SessionOpen \<notin> set (happened ex_start
        (run_agent_turn (ex_world (Inr 500) (ex_says ''unused'')) ''Weather in Paris?'' ex_start))"
proof -
  have h: "health (ex_world (Inr 500) (ex_says ''unused'')) \<noteq> Inr 200"
    and v: "health (ex_world (Inr 500) (ex_says ''unused'')) = Inr 500"
    by (simp_all add: ex_world_def)
  have s: "str_int 500 = ''500''" by code_simp
  from health_check_failure_aborts [OF h, of "''Weather in Paris?''" ex_start] h v s
  show ?thesis by (simp add: ex_start_def)
qed


subsection \<open>A reply without tool calls\<close>

text \<open>
  C8, amended. When the health check returns 200, the session opens, the tools are listed
  and the model's first response has no tool calls (\<open>None\<close> or an empty list), the
  turn makes exactly one model call; when leaving the session raises nothing, the
  transcript after the turn is the prior transcript followed by the user message and
  one assistant message whose content is the content the model returned; when leaving
  the session raises \<open>e\<close>, one more assistant message follows, \<open>[agent error]\<close> and
  the message of \<open>e\<close>, and the error is shown.
\<close>

theorem plain_reply_turn:
  assumes "health w = Inr 200" "session_open w = None" "list_tools w = Inr mcp_tools"
    and "llm w 0 (first_request mcp_tools (messages st @ [user_message user_input])) = Inr (m # others)"
    and "tool_calls m = None \<or> tool_calls m = Some []"
  shows "(session_close w = None \<longrightarrow>
            messages (run_agent_turn w user_input st) =
              messages st @ [user_message user_input, assistant_message (am_content m)]
          \<and> happened st (run_agent_turn w user_input st) =
              [HealthProbe, SessionOpen, ListTools,
               LlmCall (first_request mcp_tools (messages st @ [user_message user_input]))])
       \<and> (\<forall>e. session_close w = Some e \<longrightarrow>
            messages (run_agent_turn w user_input st) =
              messages st @ [user_message user_input, assistant_message (am_content m),
                assistant_message (Some (''[agent error] '' @ py_str e))]
          \<and> happened st (run_agent_turn w user_input st) =
              [HealthProbe, SessionOpen, ListTools,
               LlmCall (first_request mcp_tools (messages st @ [user_message user_input])),
               UiError (''Connection / agent runtime error: '' @ py_str e)])
       \<and> filter is_LlmCall (happened st (run_agent_turn w user_input st)) =
            [LlmCall (first_request mcp_tools (messages st @ [user_message user_input]))]"
proof -
  let ?st1 = "emit HealthProbe (append_message (user_message user_input) st)"
  let ?req = "first_request mcp_tools (messages st @ [user_message user_input])"
  have m1: "messages ?st1 = messages st @ [user_message user_input]"
    by (simp add: emit_def append_message_def)
  from assms(5) have none: "requested m = []" by (auto simp: requested_def)
  from assms(4) have reply: "llm w 0 (first_request mcp_tools (messages ?st1)) = Inr (m # others)"
    by (simp only: m1)
  have steps: "session_steps w ?st1 =
      (append_message (assistant_message (am_content m))
         (emit (LlmCall (first_request mcp_tools (messages ?st1)))
            (emit ListTools (emit SessionOpen ?st1))), None)"
    by (rule session_steps_plain_reply [OF assms(2) assms(3) reply none])
  have quiet: "messages (run_agent_turn w user_input st) =
        messages st @ [user_message user_input, assistant_message (am_content m)]
      \<and> happened st (run_agent_turn w user_input st) = [HealthProbe, SessionOpen, ListTools, LlmCall ?req]"
    if "session_close w = None"
    using run_agent_turn_after_steps [OF assms(1) steps] that
    by (simp add: leave_session_def emit_def append_message_def happened_def)
  have loud: "messages (run_agent_turn w user_input st) =
        messages st @ [user_message user_input, assistant_message (am_content m),
          assistant_message (Some (''[agent error] '' @ py_str e))]
      \<and> happened st (run_agent_turn w user_input st) =
          [HealthProbe, SessionOpen, ListTools, LlmCall ?req,
           UiError (''Connection / agent runtime error: '' @ py_str e)]"
    if "session_close w = Some e" for e
    using run_agent_turn_after_steps [OF assms(1) steps] that
    by (simp add: leave_session_def emit_def append_message_def happened_def)
  have "filter is_LlmCall (happened st (run_agent_turn w user_input st)) = [LlmCall ?req]"
  proof (cases "session_close w")
    case None
    with quiet show ?thesis by simp
  next
    case (Some e)
    with loud show ?thesis by simp
  qed
  with quiet loud show ?thesis by blast
qed

theorem plain_reply_turn_witness:
  "tool_calls (ex_says ''Hello!'') = None
   \<and> session_close (ex_world (Inr 200) (ex_says ''Hello!'')) = None
   \<and> messages (run_agent_turn (ex_world (Inr 200) (ex_says ''Hello!'')) ''hi'' ex_start) =
       messages ex_start @ [user_message ''hi'', assistant_message (Some ''Hello!'')]
   \<and> happened ex_start (run_agent_turn (ex_world (Inr 200) (ex_says ''Hello!'')) ''hi'' ex_start) =
       [HealthProbe, SessionOpen, ListTools,
        LlmCall (first_request [ex_tool] (messages ex_start @ [user_message ''hi'']))]
   \<and> filter is_LlmCall
        (happened ex_start (run_agent_turn (ex_world (Inr 200) (ex_says ''Hello!'')) ''hi'' ex_start)) =
       [LlmCall (first_request [ex_tool] (messages ex_start @ [user_message ''hi'']))]"
proof -
  have c: "tool_calls (ex_says ''Hello!'') = None \<or> tool_calls (ex_says ''Hello!'') = Some []"
    and c': "tool_calls (ex_says ''Hello!'') = None" and a: "am_content (ex_says ''Hello!'') = Some ''Hello!''"
    by (simp_all add: ex_says_def)
  have q: "session_close (ex_world (Inr 200) (ex_says ''Hello!'')) = None"
    by (simp add: ex_world_def)
  from plain_reply_turn
         [of "ex_world (Inr 200) (ex_says ''Hello!'')" "[ex_tool]" ex_start "''hi''" "ex_says ''Hello!''" "[]",
          OF ex_turn_hyps(1) ex_turn_hyps(2) ex_turn_hyps(3) ex_turn_hyps(4) c] c' a q
  show ?thesis by simp
qed

text \<open>
  C8 as stated does not hold: with the health check at 200, the session opened and a
  first response without tool calls, a session whose closing raises leaves three
  entries behind the prior transcript, not two.
\<close>

theorem plain_reply_turn_counterexample:
  "health (ex_closing_fails (ex_says ''Hello!'')) = Inr 200
   \<and> session_open (ex_closing_fails (ex_says ''Hello!'')) = None
   \<and> tool_calls (ex_says ''Hello!'') = None
   \<and> messages (run_agent_turn (ex_closing_fails (ex_says ''Hello!'')) ''hi'' ex_start) =
       messages ex_start @
         [user_message ''hi'', assistant_message (Some ''Hello!''),
          assistant_message (Some ''[agent error] unhandled errors in a TaskGroup (1 sub-exception)'')]
   \<and> messages (run_agent_turn (ex_closing_fails (ex_says ''Hello!'')) ''hi'' ex_start) \<noteq>
       messages ex_start @ [user_message ''hi'', assistant_message (Some ''Hello!'')]"
  by (simp add: run_agent_turn_def session_body_def session_steps_def leave_session_def Let_def
      emit_def append_message_def index0_def ex_closing_fails_def
      ex_world_def ex_says_def ex_start_def ex_tool_def requested_def
      first_request_def normalize_def user_message_def assistant_message_def)

subsection \<open>Malformed arguments\<close>

text \<open>
  C9. Given that \<open>json.loads("{}")\<close> is the empty object: for every tool call whose
  arguments are absent or empty, or on whose arguments \<open>json.loads\<close> raises, the
  parsed arguments are the empty object; in every turn each call the model requested is
  invoked, in order, with its parsed arguments; each gets a tool-role message; and a
  turn with requested calls goes on to the final model call.
\<close>

theorem malformed_arguments_degrade:
  assumes "json_loads w ''{}'' = Inr (JObject [])"
  shows "(\<forall>tc. not_set (tc_arguments tc) \<or> (\<exists>s e. tc_arguments tc = Some s \<and> json_loads w s = Inl e)
            \<longrightarrow> parse_arguments w tc = JObject [])
       \<and> filter is_ToolInvoke (happened st (run_agent_turn w user_input st)) =
           map (\<lambda>tc. ToolInvoke (tc_name tc) (parse_arguments w tc)) (turn_requests w user_input st)
       \<and> length (tool_messages (appended st (run_agent_turn w user_input st))) =
           length (turn_requests w user_input st)
       \<and> (turn_requests w user_input st \<noteq> [] \<longrightarrow>
            (\<exists>ms. LlmCall (final_request ms) \<in> set (happened st (run_agent_turn w user_input st))))"
proof (intro conjI allI impI)
  fix tc :: tool_call
  assume "not_set (tc_arguments tc) \<or> (\<exists>s e. tc_arguments tc = Some s \<and> json_loads w s = Inl e)"
  with assms show "parse_arguments w tc = JObject []"
    by (auto simp: parse_arguments_def not_set_def split: option.splits)
next
  show "filter is_ToolInvoke (happened st (run_agent_turn w user_input st)) =
      map (\<lambda>tc. ToolInvoke (tc_name tc) (parse_arguments w tc)) (turn_requests w user_input st)"
    using turn_invocations [of st w user_input] by (simp add: invocation_def [abs_def])
next
  show "length (tool_messages (appended st (run_agent_turn w user_input st))) =
      length (turn_requests w user_input st)"
    by (simp add: turn_tool_messages length_tool_replies)
next
  assume ne: "turn_requests w user_input st \<noteq> []"
  from turn_requests_reached [OF ne] obtain mcp_tools m others where
    h: "health w = Inr 200" "session_open w = None" "list_tools w = Inr mcp_tools"
      "llm w 0 (first_request mcp_tools (messages st @ [user_message user_input])) = Inr (m # others)"
      "requested m = turn_requests w user_input st"
    by blast
  with ne have "requested m \<noteq> []" by simp
  from run_agent_turn_with_calls [OF h(1-4) this] obtain ms tail where
    "trace (run_agent_turn w user_input st) =
       trace st @ [HealthProbe, SessionOpen, ListTools,
                   LlmCall (first_request mcp_tools (messages st @ [user_message user_input]))]
         @ map (invocation w) (requested m) @ [LlmCall (final_request ms)] @ tail"
    by blast
  then have "LlmCall (final_request ms) \<in> set (happened st (run_agent_turn w user_input st))"
    by (simp add: happened_def)
  then show "\<exists>ms. LlmCall (final_request ms) \<in> set (happened st (run_agent_turn w user_input st))" ..
qed

lemma ex_turn_requests:
  "turn_requests (ex_world (Inr 200) (ex_asks id1 id2)) user_input st =
     [\<lparr>tc_id = id1, tc_name = ''get_current_weather'', tc_arguments = Some ''{city''\<rparr>,
      \<lparr>tc_id = id2, tc_name = ''get_forecast'', tc_arguments = None\<rparr>]"
  by (simp add: turn_requests_def ex_world_def ex_asks_def requested_def)

theorem malformed_arguments_degrade_witness:
  "json_loads (ex_world (Inr 200) (ex_asks (Some ''call_1'') (Some ''call_2''))) ''{}'' = Inr (JObject [])
   \<and> json_loads (ex_world (Inr 200) (ex_asks (Some ''call_1'') (Some ''call_2''))) ''{city'' =
       Inl (ValueError ''Expecting property name'')
   \<and> filter is_ToolInvoke (happened ex_start
        (run_agent_turn (ex_world (Inr 200) (ex_asks (Some ''call_1'') (Some ''call_2'')))
           ''Weather in Paris?'' ex_start)) =
       [ToolInvoke ''get_current_weather'' (JObject []), ToolInvoke ''get_forecast'' (JObject [])]
   \<and> length (tool_messages (appended ex_start
        (run_agent_turn (ex_world (Inr 200) (ex_asks (Some ''call_1'') (Some ''call_2'')))
           ''Weather in Paris?'' ex_start))) = 2"
proof -
  let ?w = "ex_world (Inr 200) (ex_asks (Some ''call_1'') (Some ''call_2''))"
  have l: "json_loads ?w ''{}'' = Inr (JObject [])"
    and b: "json_loads ?w ''{city'' = Inl (ValueError ''Expecting property name'')"
    by (simp_all add: ex_world_def ex_loads_def)
  from malformed_arguments_degrade [OF l, where user_input = "''Weather in Paris?''" and st = ex_start]
  have p: "\<And>tc. not_set (tc_arguments tc) \<or> (\<exists>s e. tc_arguments tc = Some s \<and> json_loads ?w s = Inl e)
        \<Longrightarrow> parse_arguments ?w tc = JObject []"
    and rest: "filter is_ToolInvoke (happened ex_start (run_agent_turn ?w ''Weather in Paris?'' ex_start)) =
        map (\<lambda>tc. ToolInvoke (tc_name tc) (parse_arguments ?w tc))
          (turn_requests ?w ''Weather in Paris?'' ex_start)"
      "length (tool_messages (appended ex_start (run_agent_turn ?w ''Weather in Paris?'' ex_start))) =
        length (turn_requests ?w ''Weather in Paris?'' ex_start)"
    by blast+
  have "parse_arguments ?w \<lparr>tc_id = Some ''call_1'', tc_name = ''get_current_weather'',
      tc_arguments = Some ''{city''\<rparr> = JObject []"
    using b by (intro p) simp
  moreover have "parse_arguments ?w \<lparr>tc_id = Some ''call_2'', tc_name = ''get_forecast'',
      tc_arguments = None\<rparr> = JObject []"
    by (intro p) (simp add: not_set_def)
  ultimately show ?thesis using l b rest by (simp add: ex_turn_requests)
qed


subsection \<open>Tool-call identifiers\<close>

text \<open>
  C6, amended. In every turn the tool-role messages appended carry, in order, the
  identifiers of the tool calls of the model's first response, one message for each
  call; and when that response gives its calls pairwise distinct identifiers, the
  identifier of every tool-role message appended is that of exactly one of the calls.
\<close>

theorem tool_message_ids:
  "map tool_call_id (tool_messages (appended st (run_agent_turn w user_input st))) =
     map tc_id (turn_requests w user_input st)
   \<and> (distinct (map tc_id (turn_requests w user_input st)) \<longrightarrow>
        (\<forall>t \<in> set (tool_messages (appended st (run_agent_turn w user_input st))).
           count_list (map tc_id (turn_requests w user_input st)) (tool_call_id t) = 1))"
proof -
  have ids: "map tool_call_id (tool_messages (appended st (run_agent_turn w user_input st))) =
      map tc_id (turn_requests w user_input st)"
    by (simp add: turn_tool_messages tool_replies_ids)
  have "count_list (map tc_id (turn_requests w user_input st)) (tool_call_id t) = 1"
    if d: "distinct (map tc_id (turn_requests w user_input st))"
      and t: "t \<in> set (tool_messages (appended st (run_agent_turn w user_input st)))" for t
  proof -
    from t have "tool_call_id t \<in>
        set (map tool_call_id (tool_messages (appended st (run_agent_turn w user_input st))))"
      by simp
    with ids have "tool_call_id t \<in> set (map tc_id (turn_requests w user_input st))" by simp
    with d show ?thesis by (rule distinct_count_list_1)
  qed
  with ids show ?thesis by blast
qed

theorem tool_message_ids_witness:
  "distinct (map tc_id
     (turn_requests (ex_world (Inr 200) (ex_asks (Some ''call_1'') (Some ''call_2'')))
        ''Weather in Paris?'' ex_start))
   \<and> map tool_call_id (tool_messages (appended ex_start
        (run_agent_turn (ex_world (Inr 200) (ex_asks (Some ''call_1'') (Some ''call_2'')))
           ''Weather in Paris?'' ex_start))) = [Some ''call_1'', Some ''call_2'']
   \<and> map (count_list (map tc_id
          (turn_requests (ex_world (Inr 200) (ex_asks (Some ''call_1'') (Some ''call_2'')))
             ''Weather in Paris?'' ex_start)))
        (map tool_call_id (tool_messages (appended ex_start
          (run_agent_turn (ex_world (Inr 200) (ex_asks (Some ''call_1'') (Some ''call_2'')))
             ''Weather in Paris?'' ex_start)))) = [1, 1]"
proof -
  let ?w = "ex_world (Inr 200) (ex_asks (Some ''call_1'') (Some ''call_2''))"
  let ?new = "tool_messages (appended ex_start (run_agent_turn ?w ''Weather in Paris?'' ex_start))"
  let ?ids = "map tc_id (turn_requests ?w ''Weather in Paris?'' ex_start)"
  have d: "distinct ?ids" by (simp add: ex_turn_requests)
  from tool_message_ids [of ex_start ?w "''Weather in Paris?''"] d
  have ids: "map tool_call_id ?new = ?ids"
    and one: "\<forall>t\<in>set ?new. count_list ?ids (tool_call_id t) = 1"
    by blast+
  from one have "map (count_list ?ids) (map tool_call_id ?new) = map (\<lambda>t. 1) ?new"
    by simp
  also from ids have "length ?new = 2" by (simp add: ex_turn_requests flip: length_map [of tool_call_id])
  then have "map (\<lambda>t. 1::nat) ?new = [1, 1]"
    by (cases ?new) (auto simp: length_Suc_conv)
  finally show ?thesis using d ids by (simp add: ex_turn_requests)
qed

text \<open>
  C6 as stated does not hold: when the model's response holds two calls with the same
  identifier, both tool-role messages carry it and it is the identifier of two requests.
\<close>

theorem tool_message_ids_counterexample:
  "map tc_id (requested (ex_asks (Some ''call_1'') (Some ''call_1''))) = [Some ''call_1'', Some ''call_1'']
   \<and> map tool_call_id (tool_messages (appended ex_start
        (run_agent_turn (ex_world (Inr 200) (ex_asks (Some ''call_1'') (Some ''call_1'')))
           ''Weather in Paris?'' ex_start))) = [Some ''call_1'', Some ''call_1'']
   \<and> count_list (map tc_id (requested (ex_asks (Some ''call_1'') (Some ''call_1'')))) (Some ''call_1'') = 2"
  by (simp add: run_agent_turn_def session_body_def session_steps_def leave_session_def Let_def
      emit_def append_message_def index0_def
      ex_world_def ex_asks_def ex_says_def ex_start_def ex_tool_def ex_loads_def requested_def
      parse_arguments_def appended_def tool_messages_def first_request_def final_request_def
      normalize_def user_message_def assistant_message_def)

section \<open>Missing API keys\<close>

text \<open>
  C7. When the model provider's key is absent (or empty), a run of the client script
  shows the error and stops there: the session's messages are unchanged and nothing else
  happens, whatever the prompt. When the weather provider's key is absent (or empty),
  \<open>get_current_weather\<close> and \<open>get_forecast\<close> send no request and return the text
  \<open>An error occurred: OPENWEATHER_API_KEY is not set.\<close>
\<close>

theorem missing_api_keys:
  "(not_set (OPENROUTER_API_KEY cenv) \<longrightarrow>
      client_script cenv w prompt session =
        (session, [UiError ''OPENROUTER_API_KEY not found in environment variables.'']))
   \<and> (not_set (OPENWEATHER_API_KEY env) \<longrightarrow>
        get_current_weather env http city =
          ([], Inr ''An error occurred: OPENWEATHER_API_KEY is not set.'')
      \<and> get_forecast env http city days =
          ([], Inr ''An error occurred: OPENWEATHER_API_KEY is not set.''))"
  by (simp add: client_script_def get_current_weather_def current_weather_try_def
      get_forecast_def forecast_try_def get_weather_data_def)

theorem missing_api_keys_witness:
  "not_set (OPENROUTER_API_KEY ex_client_no_key)
   \<and> client_script ex_client_no_key (ex_world (Inr 200) (ex_says ''Hello!'')) (Some ''hi'')
        (Some (messages ex_start)) =
       (Some (messages ex_start), [UiError ''OPENROUTER_API_KEY not found in environment variables.''])
   \<and> not_set (OPENWEATHER_API_KEY ex_no_key)
   \<and> get_current_weather ex_no_key (ex_reply ex_three) ''Paris'' =
       ([], Inr ''An error occurred: OPENWEATHER_API_KEY is not set.'')
   \<and> get_forecast ex_no_key (ex_reply ex_three) ''Paris'' 3 =
       ([], Inr ''An error occurred: OPENWEATHER_API_KEY is not set.'')"
proof -
  have c: "not_set (OPENROUTER_API_KEY ex_client_no_key)"
    and s: "not_set (OPENWEATHER_API_KEY ex_no_key)"
    by (simp_all add: not_set_def ex_client_no_key_def ex_no_key_def)
  from missing_api_keys
         [of ex_client_no_key "ex_world (Inr 200) (ex_says ''Hello!'')" "Some ''hi''"
             "Some (messages ex_start)" ex_no_key "ex_reply ex_three" "''Paris''" 3] c s
  show ?thesis by simp
qed

end
